theory Spec2Isabelle
  imports Complex_Main
begin

section \<open>Storage model (database.py)\<close>

text \<open>
  Timestamps are integers (microseconds on one clock).  The \<open>expires_at\<close> column holds
  either NULL or the ISO text that \<open>shorten_url\<close> wrote; it is modelled by the time it
  denotes.
\<close>

type_synonym timestamp = int

text \<open>
  A Python \<open>str\<close> is a sequence of code points.  What \<open>http.server\<close> reads from the
  socket (request line, headers) is decoded as iso-8859-1 and what it writes into a
  header is encoded as latin-1, strictly: a code point from U+0100 on raises
  UnicodeEncodeError.  HOL's \<open>string\<close> is the 8-bit text on the wire; \<open>str\<close> decodes it.
\<close>

type_synonym pystr = "nat list"

definition str :: "string \<Rightarrow> pystr" where
  "str s = map of_char s"

definition encode_latin1 :: "pystr \<Rightarrow> string option" where
  "encode_latin1 s = (if list_all (\<lambda>n. n < 256) s then Some (map char_of s) else None)"

record url_row =
  url_id :: nat
  short_code :: pystr
  original_url :: pystr
  custom :: bool
  created_at :: timestamp
  expires_at :: "timestamp option"
  is_active :: bool
  row_notes :: pystr
  tags :: pystr
  password :: "pystr option"

record click_row =
  click_id :: nat
  click_code :: pystr
  clicked_at :: timestamp
  ip_address :: pystr
  country :: pystr
  city :: pystr
  browser :: pystr
  device :: pystr
  response_time_ms :: real

text \<open>
  The connection's view of the two tables, in insertion order, with the AUTOINCREMENT
  counters.  The schema declares a foreign key from clicks to urls, but the connection
  never enables foreign-key enforcement, so no statement below is checked against it.
\<close>

record database =
  urls :: "url_row list"
  clicks :: "click_row list"
  url_seq :: nat
  click_seq :: nat

text \<open>
  Every method wraps its statements in \<open>try ... except sqlite3.Error\<close>.  Whether a
  statement raises is decided by the storage engine, so each \<open>execute\<close> takes its outcome
  as an argument; a statement that raises changes nothing.  A \<open>commit\<close> that raises is
  not modelled.
\<close>

datatype sqlite_outcome = Sqlite_ok | Sqlite_error

definition code_exists :: "database \<Rightarrow> pystr \<Rightarrow> bool" where
  "code_exists db c = (\<exists>r \<in> set (urls db). short_code r = c)"

text \<open>\<open>insert_url\<close>: the UNIQUE constraint on \<open>short_code\<close> raises IntegrityError.\<close>

definition insert_url ::
  "database \<Rightarrow> sqlite_outcome \<Rightarrow> timestamp \<Rightarrow> pystr \<Rightarrow> pystr \<Rightarrow> bool \<Rightarrow> timestamp option
     \<Rightarrow> pystr \<Rightarrow> pystr \<Rightarrow> bool \<times> database" where
  "insert_url db out now c u cust expiry nts tgs =
     (if out = Sqlite_error then (False, db)
      else if code_exists db c then (False, db)
      else (True, db\<lparr>urls := urls db @
               [\<lparr>url_id = Suc (url_seq db), short_code = c, original_url = u, custom = cust,
                 created_at = now, expires_at = expiry, is_active = True, row_notes = nts,
                 tags = tgs, password = None\<rparr>],
             url_seq := Suc (url_seq db)\<rparr>))"

text \<open>\<open>get_url\<close>: SELECT ... WHERE short_code = ? AND is_active = 1, then the expiry test.\<close>

definition get_url :: "database \<Rightarrow> sqlite_outcome \<Rightarrow> timestamp \<Rightarrow> pystr \<Rightarrow> url_row option" where
  "get_url db out now c =
     (if out = Sqlite_error then None
      else case find (\<lambda>r. short_code r = c \<and> is_active r) (urls db) of
             None \<Rightarrow> None
           | Some row \<Rightarrow>
               (case expires_at row of
                  None \<Rightarrow> Some row
                | Some e \<Rightarrow> if now > e then None else Some row))"

text \<open>\<open>get_all_urls\<close>: ORDER BY created_at DESC (a stable sort; SQLite leaves ties open).\<close>

definition get_all_urls :: "database \<Rightarrow> sqlite_outcome \<Rightarrow> bool \<Rightarrow> url_row list" where
  "get_all_urls db out include_inactive =
     (if out = Sqlite_error then []
      else if include_inactive then sort_key (\<lambda>r. - created_at r) (urls db)
      else sort_key (\<lambda>r. - created_at r) (filter is_active (urls db)))"

text \<open>\<open>update_url\<close>: only the supplied (non-None) fields enter the SET clause.\<close>

definition set_fields ::
  "pystr option \<Rightarrow> pystr option \<Rightarrow> pystr option \<Rightarrow> timestamp option \<Rightarrow> url_row \<Rightarrow> url_row" where
  "set_fields ou nts tgs expiry r =
     r\<lparr>original_url := (case ou of None \<Rightarrow> original_url r | Some v \<Rightarrow> v),
       row_notes := (case nts of None \<Rightarrow> row_notes r | Some v \<Rightarrow> v),
       tags := (case tgs of None \<Rightarrow> tags r | Some v \<Rightarrow> v),
       expires_at := (case expiry of None \<Rightarrow> expires_at r | Some v \<Rightarrow> Some v)\<rparr>"

definition update_url ::
  "database \<Rightarrow> sqlite_outcome \<Rightarrow> pystr \<Rightarrow> pystr option \<Rightarrow> pystr option \<Rightarrow> pystr option
     \<Rightarrow> timestamp option \<Rightarrow> bool \<times> database" where
  "update_url db out c ou nts tgs expiry =
     (if ou = None \<and> nts = None \<and> tgs = None \<and> expiry = None then (False, db)
      else if out = Sqlite_error then (False, db)
      else (True, db\<lparr>urls := map (\<lambda>r. if short_code r = c then set_fields ou nts tgs expiry r else r)
                                  (urls db)\<rparr>))"

text \<open>\<open>delete_url\<close>: UPDATE urls SET is_active = 0 WHERE short_code = ?.\<close>

definition delete_url :: "database \<Rightarrow> sqlite_outcome \<Rightarrow> pystr \<Rightarrow> bool \<times> database" where
  "delete_url db out c =
     (if out = Sqlite_error then (False, db)
      else (True, db\<lparr>urls := map (\<lambda>r. if short_code r = c then r\<lparr>is_active := False\<rparr> else r)
                                  (urls db)\<rparr>))"

text \<open>\<open>hard_delete_url\<close>: two DELETE statements, clicks first.\<close>

definition hard_delete_url ::
  "database \<Rightarrow> sqlite_outcome \<Rightarrow> sqlite_outcome \<Rightarrow> pystr \<Rightarrow> bool \<times> database" where
  "hard_delete_url db out1 out2 c =
     (if out1 = Sqlite_error then (False, db)
      else let db1 = db\<lparr>clicks := filter (\<lambda>k. click_code k \<noteq> c) (clicks db)\<rparr>
           in if out2 = Sqlite_error then (False, db1)
              else (True, db1\<lparr>urls := filter (\<lambda>r. short_code r \<noteq> c) (urls db1)\<rparr>))"

text \<open>\<open>record_click\<close>: INSERT INTO clicks.\<close>

definition record_click ::
  "database \<Rightarrow> sqlite_outcome \<Rightarrow> timestamp \<Rightarrow> pystr \<Rightarrow> pystr \<Rightarrow> pystr \<Rightarrow> pystr \<Rightarrow> pystr
     \<Rightarrow> pystr \<Rightarrow> real \<Rightarrow> bool \<times> database" where
  "record_click db out now c ip co ci br dv rt =
     (if out = Sqlite_error then (False, db)
      else (True, db\<lparr>clicks := clicks db @
               [\<lparr>click_id = Suc (click_seq db), click_code = c, clicked_at = now,
                 ip_address = ip, country = co, city = ci, browser = br, device = dv,
                 response_time_ms = rt\<rparr>],
             click_seq := Suc (click_seq db)\<rparr>))"

text \<open>\<open>get_click_count\<close>: SELECT COUNT(*) FROM clicks WHERE short_code = ?.\<close>

definition get_click_count :: "database \<Rightarrow> sqlite_outcome \<Rightarrow> pystr \<Rightarrow> nat" where
  "get_click_count db out c =
     (if out = Sqlite_error then 0
      else length (filter (\<lambda>k. click_code k = c) (clicks db)))"

text \<open>\<open>get_clicks\<close> with only the short-code filter (an empty code means no filter).\<close>

definition get_clicks :: "database \<Rightarrow> sqlite_outcome \<Rightarrow> pystr option \<Rightarrow> click_row list" where
  "get_clicks db out c =
     (if out = Sqlite_error then []
      else sort_key (\<lambda>k. - clicked_at k)
             (case c of None \<Rightarrow> clicks db
              | Some s \<Rightarrow> if s = [] then clicks db
                          else filter (\<lambda>k. click_code k = s) (clicks db)))"

text \<open>
  \<open>get_statistics\<close>: the keys computed from plain counts and averages.  The keys
  \<open>most_clicked\<close> and \<open>top_countries\<close> (GROUP BY with LIMIT) are read by no property
  below and are left out of the record.  Any failing statement yields the empty dict.
\<close>

record statistics =
  total_urls :: nat
  total_clicks :: nat
  avg_clicks_per_url :: real
  avg_response_time_ms :: real

definition get_statistics :: "database \<Rightarrow> sqlite_outcome \<Rightarrow> statistics option" where
  "get_statistics db out =
     (if out = Sqlite_error then None
      else let n = length (filter is_active (urls db));
               m = length (clicks db)
           in Some \<lparr>total_urls = n, total_clicks = m,
                    avg_clicks_per_url = (if n > 0 then real m / real n else 0),
                    avg_response_time_ms =
                      (if m = 0 then 0
                       else sum_list (map response_time_ms (clicks db)) / real m)\<rparr>)"

section \<open>Configuration (config.py)\<close>

definition SHORT_CODE_LENGTH :: nat where
  "SHORT_CODE_LENGTH = 6"

definition SHORT_CODE_CHARS :: pystr where
  "SHORT_CODE_CHARS = str ''abcdefghijklmnopqrstuvwxyzABCDEFGHIJKLMNOPQRSTUVWXYZ0123456789''"

definition MAX_CUSTOM_LENGTH :: nat where
  "MAX_CUSTOM_LENGTH = 50"

definition CHECK_URL_ACTIVE :: bool where
  "CHECK_URL_ACTIVE = True"

definition CUSTOM_DOMAIN :: pystr where
  "CUSTOM_DOMAIN = str ''http://localhost:8080''"

definition TRACK_IP :: bool where
  "TRACK_IP = True"

definition TRACK_LOCATION :: bool where
  "TRACK_LOCATION = True"

definition TRACK_BROWSER :: bool where
  "TRACK_BROWSER = True"

definition msg_invalid_url :: pystr where
  "msg_invalid_url =
     str ''Invalid URL format. Please enter a valid URL starting with http:// or https://''"

definition msg_url_inactive :: pystr where
  "msg_url_inactive = str ''URL appears to be inactive or unreachable''"

definition msg_blacklisted :: pystr where
  "msg_blacklisted = str ''This URL is blacklisted and cannot be shortened''"

definition msg_custom_taken :: pystr where
  "msg_custom_taken = str ''This custom short code is already taken''"

definition msg_database_error :: pystr where
  "msg_database_error = str ''Database error occurred. Please try again''"

definition msg_not_found :: pystr where
  "msg_not_found = str ''Shortened URL not found''"

definition msg_dns_error :: pystr where
  "msg_dns_error = str ''DNS resolution failed for this URL''"

section \<open>Python string helpers\<close>

text \<open>
  \<open>str.isalnum\<close>: for code points below U+0100 the alphanumeric ones are listed; from
  U+0100 on the answer is the interpreter's Unicode table, which is not part of the
  repository and is taken as a parameter.
\<close>

definition cp_isalnum :: "(nat \<Rightarrow> bool) \<Rightarrow> nat \<Rightarrow> bool" where
  "cp_isalnum tbl n =
     (if n < 256
      then (48 \<le> n \<and> n \<le> 57) \<or> (65 \<le> n \<and> n \<le> 90) \<or> (97 \<le> n \<and> n \<le> 122) \<or> n = 170 \<or>
           (178 \<le> n \<and> n \<le> 179) \<or> n = 181 \<or> (185 \<le> n \<and> n \<le> 186) \<or> (188 \<le> n \<and> n \<le> 190) \<or>
           (192 \<le> n \<and> n \<le> 214) \<or> (216 \<le> n \<and> n \<le> 246) \<or> 248 \<le> n
      else tbl n)"

definition isalnum :: "(nat \<Rightarrow> bool) \<Rightarrow> pystr \<Rightarrow> bool" where
  "isalnum tbl s = (s \<noteq> [] \<and> list_all (cp_isalnum tbl) s)"

text \<open>\<open>str.strip\<close> removes the Unicode whitespace at both ends.\<close>

definition cp_isspace :: "nat \<Rightarrow> bool" where
  "cp_isspace n =
     ((9 \<le> n \<and> n \<le> 13) \<or> (28 \<le> n \<and> n \<le> 32) \<or> n = 133 \<or> n = 160 \<or> n = 5760 \<or>
      (8192 \<le> n \<and> n \<le> 8202) \<or> (8232 \<le> n \<and> n \<le> 8233) \<or> n = 8239 \<or> n = 8287 \<or> n = 12288)"

definition strip :: "pystr \<Rightarrow> pystr" where
  "strip s = rev (dropWhile cp_isspace (rev (dropWhile cp_isspace s)))"

section \<open>The shortener (url_shortener.py)\<close>

text \<open>
  What one call of the shortener reads from outside: the URL checks of utils.py (network
  and blacklist probes), the random source behind \<open>random.choices\<close>, the wall clock and
  the outcome of each storage statement.  Lookups are numbered by loop iteration.  The
  field \<open>unicode_isalnum\<close> is the table behind \<open>str.isalnum\<close> from U+0100 on.
\<close>

record environment =
  unicode_isalnum :: "nat \<Rightarrow> bool"
  is_blacklisted :: "pystr \<Rightarrow> bool"
  check_dns_resolution :: "pystr \<Rightarrow> bool"
  check_url_active :: "pystr \<Rightarrow> bool"
  rng :: "nat \<Rightarrow> nat"
  lookup_outcome :: "nat \<Rightarrow> sqlite_outcome"
  lookup_time :: "nat \<Rightarrow> timestamp"
  expiry_time :: timestamp
  insert_outcome :: sqlite_outcome
  insert_time :: timestamp

text \<open>
  \<open>random.choices(SHORT_CODE_CHARS, k = SHORT_CODE_LENGTH)\<close>: the \<open>n\<close>-th draw takes
  six numbers from the source, each reduced to an index into the alphabet.
\<close>

definition draw_code :: "(nat \<Rightarrow> nat) \<Rightarrow> nat \<Rightarrow> pystr" where
  "draw_code r n =
     map (\<lambda>i. SHORT_CODE_CHARS ! (r (SHORT_CODE_LENGTH * n + i) mod length SHORT_CODE_CHARS))
         [0..<SHORT_CODE_LENGTH]"

text \<open>
  \<open>generate_short_code\<close>: \<open>while True\<close> with the return as the only exit.  The value
  \<open>None\<close> is the loop that never returns.
\<close>

partial_function (option) generate_from :: "database \<Rightarrow> environment \<Rightarrow> nat \<Rightarrow> pystr option" where
  "generate_from db env n =
     (let code = draw_code (rng env) n
      in if get_url db (lookup_outcome env n) (lookup_time env n) code = None then Some code
         else generate_from db env (Suc n))"

declare generate_from.simps [code]

definition generate_short_code :: "database \<Rightarrow> environment \<Rightarrow> pystr option" where
  "generate_short_code db env = generate_from db env 0"

text \<open>
  \<open>validate_url\<close> returns a non-empty dict on every path, so the test
  \<open>not validate_url(original_url)\<close> sees a truthy value whatever the URL is.
\<close>

definition validate_url_truthy :: "pystr \<Rightarrow> bool" where
  "validate_url_truthy u = True"

record shorten_result =
  success :: bool
  result_code :: "pystr option"
  shortened_url :: "pystr option"
  error :: "pystr option"

definition failure :: "pystr \<Rightarrow> shorten_result" where
  "failure msg = \<lparr>success = False, result_code = None, shortened_url = None, error = Some msg\<rparr>"

definition day_length :: int where
  "day_length = 86400000000"

text \<open>The tail of \<open>shorten_url\<close>: expiration date and insert.\<close>

definition store_url ::
  "database \<Rightarrow> environment \<Rightarrow> pystr \<Rightarrow> pystr \<Rightarrow> bool \<Rightarrow> int option \<Rightarrow> pystr \<Rightarrow> pystr
     \<Rightarrow> shorten_result \<times> database" where
  "store_url db env c u is_custom expires_days nts tgs =
     (let expires = (case expires_days of
                       None \<Rightarrow> None
                     | Some d \<Rightarrow> if d = 0 then None else Some (expiry_time env + d * day_length));
          (ok, db') = insert_url db (insert_outcome env) (insert_time env) c u is_custom expires nts tgs
      in if ok
         then (\<lparr>success = True, result_code = Some c,
                shortened_url = Some (CUSTOM_DOMAIN @ str ''/'' @ c), error = None\<rparr>, db')
         else (failure msg_database_error, db'))"

text \<open>\<open>if custom_code:\<close> holds for a string that is neither None nor empty.\<close>

definition truthy_code :: "pystr option \<Rightarrow> pystr option" where
  "truthy_code cc = (case cc of None \<Rightarrow> None | Some c \<Rightarrow> if c = [] then None else Some c)"

text \<open>
  \<open>shorten_url\<close>.  The outer \<open>None\<close> is a call that never returns because code generation
  does not.
\<close>

definition shorten_url ::
  "database \<Rightarrow> environment \<Rightarrow> pystr \<Rightarrow> pystr option \<Rightarrow> int option \<Rightarrow> pystr \<Rightarrow> pystr \<Rightarrow> bool
     \<Rightarrow> (shorten_result \<times> database) option" where
  "shorten_url db env u custom_code expires_days nts tgs validate =
     (if \<not> validate_url_truthy u then Some (failure msg_invalid_url, db)
      else if is_blacklisted env u then Some (failure msg_blacklisted, db)
      else if validate \<and> CHECK_URL_ACTIVE \<and> \<not> check_dns_resolution env u
        then Some (failure msg_dns_error, db)
      else if validate \<and> CHECK_URL_ACTIVE \<and> \<not> check_url_active env u
        then Some (failure msg_url_inactive, db)
      else case truthy_code custom_code of
             Some c \<Rightarrow>
               if length c > MAX_CUSTOM_LENGTH
                 then Some (failure (str ''Custom code too long (max 50 characters)''), db)
               else if \<not> isalnum (unicode_isalnum env) c
                 then Some (failure (str ''Custom code must be alphanumeric''), db)
               else if get_url db (lookup_outcome env 0) (lookup_time env 0) c \<noteq> None
                 then Some (failure msg_custom_taken, db)
               else Some (store_url db env c u True expires_days nts tgs)
           | None \<Rightarrow>
               (case generate_short_code db env of
                  None \<Rightarrow> None
                | Some c \<Rightarrow> Some (store_url db env c u False expires_days nts tgs)))"

section \<open>The redirect server (server.py)\<close>

datatype body = Empty_body | Home_page | Stats_json "statistics option" | Error_page pystr

record response =
  status :: nat
  headers :: "(string \<times> string) list"
  body :: body

text \<open>An exception that leaves \<open>do_GET\<close>: nothing is sent and the connection is closed.\<close>

datatype py_error = UnicodeEncodeError

text \<open>
  What one request brings and what the handler reads from outside while serving it: the
  request line's path, the peer address and User-Agent header (all 8-bit text), the two
  metadata collaborators of utils.py (their answers already as \<open>str\<close>), the measured
  latency, the clock, and the outcome of each storage statement.
\<close>

record request =
  path :: string
  client_address :: string
  user_agent :: string
  get_ip_info :: "string \<Rightarrow> (pystr \<times> pystr) option"
  parse_user_agent :: "string \<Rightarrow> (pystr \<times> pystr \<times> pystr) option"
  elapsed_ms :: real
  request_time :: timestamp
  get_url_outcome :: sqlite_outcome
  record_click_outcome :: sqlite_outcome
  statistics_outcome :: sqlite_outcome

definition send_error :: "nat \<Rightarrow> pystr \<Rightarrow> response" where
  "send_error code msg = \<lparr>status = code, headers = [], body = Error_page msg\<rparr>"

definition serve_home_page :: response where
  "serve_home_page =
     \<lparr>status = 200, headers = [(''Content-type'', ''text/html'')], body = Home_page\<rparr>"

definition send_json_response :: "statistics option \<Rightarrow> response" where
  "send_json_response d =
     \<lparr>status = 200, headers = [(''Content-type'', ''application/json'')], body = Stats_json d\<rparr>"

definition handle_api :: "database \<Rightarrow> request \<Rightarrow> string \<Rightarrow> response" where
  "handle_api db req p =
     (let endpoint = drop 4 p
      in if endpoint = ''stats'' then send_json_response (get_statistics db (statistics_outcome req))
         else send_error 404 (str ''API endpoint not found''))"

text \<open>
  \<open>handle_redirect\<close>.  The result of \<open>record_click\<close> is dropped: the redirect is sent
  whether or not the click was stored.  The click is written before the response is
  built; \<open>send_header\<close> then encodes the Location value as latin-1 and raises when
  the stored URL has a code point from U+0100 on.
\<close>

definition handle_redirect ::
  "database \<Rightarrow> request \<Rightarrow> pystr \<Rightarrow> (py_error + response) \<times> database" where
  "handle_redirect db req c =
     (case get_url db (get_url_outcome req) (request_time req) c of
        None \<Rightarrow> (Inr (send_error 404 msg_not_found), db)
      | Some url_data \<Rightarrow>
          (let ip = client_address req;
               geo = (if TRACK_LOCATION then get_ip_info req ip else None);
               co = (case geo of None \<Rightarrow> [] | Some (a, b) \<Rightarrow> strip a);
               ci = (case geo of None \<Rightarrow> [] | Some (a, b) \<Rightarrow> strip b);
               ua = (if TRACK_BROWSER then parse_user_agent req (user_agent req) else None);
               br = (case ua of None \<Rightarrow> []
                     | Some (fam, ver, dev) \<Rightarrow> strip (fam @ str '' '' @ ver));
               dv = (case ua of None \<Rightarrow> [] | Some (fam, ver, dev) \<Rightarrow> strip dev);
               (ok, db') = record_click db (record_click_outcome req) (request_time req) c
                             (if TRACK_IP then str ip else []) co ci br dv (elapsed_ms req)
           in case encode_latin1 (original_url url_data) of
                None \<Rightarrow> (Inl UnicodeEncodeError, db')
              | Some location \<Rightarrow>
                  (Inr \<lparr>status = 301, headers = [(''Location'', location)],
                        body = Empty_body\<rparr>, db')))"

text \<open>
  \<open>do_GET\<close>: strip the leading slashes and the query string, then dispatch.  The path
  is 8-bit text; the code handed to the lookup is its decoding.
\<close>

definition do_GET :: "database \<Rightarrow> request \<Rightarrow> (py_error + response) \<times> database" where
  "do_GET db req =
     (let p0 = dropWhile (\<lambda>ch. ch = CHR ''/'') (path req);
          p = (if CHR ''?'' \<in> set p0 then takeWhile (\<lambda>ch. ch \<noteq> CHR ''?'') p0 else p0)
      in if p = [] \<or> p = ''index.html'' then (Inr serve_home_page, db)
         else if take 4 p = ''api/'' then (Inr (handle_api db req p), db)
         else handle_redirect db req (str p))"

section \<open>Vocabulary of the properties\<close>


section \<open>Concrete states\<close>

definition plain_row :: "nat \<Rightarrow> pystr \<Rightarrow> url_row" where
  "plain_row i c =
     \<lparr>url_id = i, short_code = c, original_url = str ''https://example.com/page'',
      custom = False, created_at = 0, expires_at = None, is_active = True, row_notes = [],
      tags = [], password = None\<rparr>"

definition empty_db :: database where
  "empty_db = \<lparr>urls = [], clicks = [], url_seq = 0, click_seq = 0\<rparr>"

definition abc_click :: click_row where
  "abc_click =
     \<lparr>click_id = 1, click_code = str ''abc'', clicked_at = 10, ip_address = str ''192.0.2.7'',
      country = [], city = [], browser = [], device = [], response_time_ms = 2\<rparr>"

text \<open>One live link \<open>abc\<close> with one recorded click.\<close>

definition abc_db :: database where
  "abc_db =
     \<lparr>urls = [plain_row 1 (str ''abc'')], clicks = [abc_click], url_seq = 1, click_seq = 1\<rparr>"

text \<open>The empty registry after one successful creation of the custom code \<open>abc\<close>.\<close>

definition created_db :: database where
  "created_db =
     \<lparr>urls = [(plain_row 1 (str ''abc''))\<lparr>custom := True, created_at := 100\<rparr>], clicks = [],
      url_seq = 1, click_seq = 0\<rparr>"

text \<open>The link \<open>abc\<close> still flagged active, with an expiry time of 50.\<close>

definition expired_db :: database where
  "expired_db =
     \<lparr>urls = [(plain_row 1 (str ''abc''))\<lparr>custom := True, expires_at := Some 50\<rparr>],
      clicks = [], url_seq = 1, click_seq = 0\<rparr>"

text \<open>The link \<open>abc\<close> after a soft delete.\<close>

definition deleted_db :: database where
  "deleted_db =
     \<lparr>urls = [(plain_row 1 (str ''abc''))\<lparr>custom := True, is_active := False\<rparr>],
      clicks = [], url_seq = 1, click_seq = 0\<rparr>"

text \<open>
  A target that ends in the three katakana U+30DA U+30FC U+30B8, and the empty registry
  after one successful creation of the custom code \<open>abc\<close> for it at time 100.
\<close>

definition katakana_url :: pystr where
  "katakana_url = str ''https://example.com/'' @ [12506, 12540, 12472]"

definition katakana_db :: database where
  "katakana_db =
     \<lparr>urls = [(plain_row 1 (str ''abc''))\<lparr>original_url := katakana_url, custom := True,
                                           created_at := 100\<rparr>],
      clicks = [], url_seq = 1, click_seq = 0\<rparr>"


text \<open>
  An environment at time 100 in which every URL check passes, every statement succeeds
  and the random source always yields 0.  Its Unicode table is empty from U+0100 on,
  which no code below reaches.
\<close>

definition calm_env :: environment where
  "calm_env =
     \<lparr>unicode_isalnum = (\<lambda>n. False),
      is_blacklisted = (\<lambda>u. False), check_dns_resolution = (\<lambda>u. True),
      check_url_active = (\<lambda>u. True), rng = (\<lambda>n. 0), lookup_outcome = (\<lambda>n. Sqlite_ok),
      lookup_time = (\<lambda>n. 100), expiry_time = 100, insert_outcome = Sqlite_ok,
      insert_time = 100\<rparr>"

text \<open>A request for \<open>/abc\<close> at time 100 with both metadata collaborators unavailable.\<close>

definition abc_request :: request where
  "abc_request =
     \<lparr>path = ''/abc'', client_address = ''192.0.2.7'', user_agent = ''curl/8.0'',
      get_ip_info = (\<lambda>ip. None), parse_user_agent = (\<lambda>ua. None), elapsed_ms = 2,
      request_time = 100, get_url_outcome = Sqlite_ok, record_click_outcome = Sqlite_ok,
      statistics_outcome = Sqlite_ok\<rparr>"

text \<open>
  The empty registry after one successful creation of the custom code \<open>abc\<close> with
  \<open>expires_days = -1\<close> at time 100.
\<close>

definition lapsed_db :: database where
  "lapsed_db =
     \<lparr>urls = [(plain_row 1 (str ''abc''))\<lparr>custom := True, created_at := 100,
                                           expires_at := Some (- 86399999900)\<rparr>],
      clicks = [], url_seq = 1, click_seq = 0\<rparr>"

section \<open>Auxiliary facts\<close>

subsection \<open>Lookups in the urls table\<close>

lemma find_none_map_inactive:
  "find (\<lambda>r. short_code r = c \<and> is_active r)
        (map (\<lambda>r. if short_code r = c then r\<lparr>is_active := False\<rparr> else r) xs) = None"
  by (induction xs) auto

lemma find_distinct_code:
  assumes "distinct (map short_code xs)" and "r \<in> set xs" and "short_code r = c"
  shows "find (\<lambda>x. short_code x = c \<and> P x) xs = (if P r then Some r else None)"
  using assms
proof (induction xs)
  case Nil
  then show ?case by simp
next
  case (Cons x xs)
  show ?case
  proof (cases "x = r")
    case True
    have "\<forall>y \<in> set xs. short_code y \<noteq> c"
      using Cons.prems True by (auto simp: image_iff)
    then have "find (\<lambda>x. short_code x = c \<and> P x) xs = None"
      by (auto simp: find_None_iff)
    then show ?thesis using True Cons.prems by simp
  next
    case False
    then have "r \<in> set xs" using Cons.prems by simp
    moreover have "short_code x \<noteq> c" using Cons.prems \<open>r \<in> set xs\<close> by (auto simp: image_iff)
    ultimately show ?thesis using Cons by simp
  qed
qed

lemma find_append_new:
  assumes "\<forall>r \<in> set xs. short_code r \<noteq> c" and "short_code x = c" and "is_active x"
  shows "find (\<lambda>r. short_code r = c \<and> is_active r) (xs @ [x]) = Some x"
  using assms by (induction xs) auto

lemma map_id_absent:
  "\<forall>r \<in> set xs. short_code r \<noteq> c \<Longrightarrow> map (\<lambda>r. if short_code r = c then f r else r) xs = xs"
  by (induction xs) auto

lemma get_url_row:
  assumes "distinct (map short_code (urls db))" and "r \<in> set (urls db)" and "short_code r = c"
  shows "get_url db Sqlite_ok now c =
           (if is_active r \<and> \<not> (\<exists>e. expires_at r = Some e \<and> e < now) then Some r else None)"
proof -
  have f: "find (\<lambda>x. short_code x = c \<and> is_active x) (urls db) = (if is_active r then Some r else None)"
    by (rule find_distinct_code [OF assms])
  show ?thesis
  proof (cases "is_active r")
    case True
    then show ?thesis using f by (cases "expires_at r") (simp_all add: get_url_def)
  next
    case False
    then show ?thesis using f by (simp add: get_url_def)
  qed
qed

lemma get_url_absent:
  assumes "\<forall>r \<in> set (urls db). short_code r \<noteq> c"
  shows "get_url db out now c = None"
proof -
  have "find (\<lambda>r. short_code r = c \<and> is_active r) (urls db) = None"
    using assms by (auto simp: find_None_iff)
  then show ?thesis by (simp add: get_url_def)
qed

lemma get_url_error: "get_url db Sqlite_error now c = None"
  by (simp add: get_url_def)

subsection \<open>The UNIQUE constraint is kept by every statement\<close>

lemma insert_url_keeps_unique:
  assumes "distinct (map short_code (urls db))"
  shows "distinct (map short_code (urls (snd (insert_url db out now c u cust expiry nts tgs))))"
  using assms by (auto simp: insert_url_def code_exists_def)

lemma map_codes_rewrite:
  assumes "\<And>r. short_code (f r) = short_code r"
  shows "map short_code (map (\<lambda>r. if short_code r = c then f r else r) xs) = map short_code xs"
  by (induction xs) (simp_all add: assms)

lemma update_url_keeps_codes:
  "map short_code (urls (snd (update_url db out c ou nts tgs expiry))) = map short_code (urls db)"
proof -
  have "short_code (set_fields ou nts tgs expiry r) = short_code r" for r
    by (simp add: set_fields_def)
  then show ?thesis by (simp add: update_url_def map_codes_rewrite del: map_map)
qed

lemma delete_url_keeps_codes:
  "map short_code (urls (snd (delete_url db out c))) = map short_code (urls db)"
proof -
  have "short_code (r\<lparr>is_active := False\<rparr>) = short_code r" for r :: url_row
    by simp
  then show ?thesis
    using map_codes_rewrite [of "\<lambda>r. r\<lparr>is_active := False\<rparr>" c "urls db"]
    by (simp add: delete_url_def del: map_map)
qed

lemma hard_delete_url_keeps_unique:
  assumes "distinct (map short_code (urls db))"
  shows "distinct (map short_code (urls (snd (hard_delete_url db out1 out2 c))))"
  using assms by (simp add: hard_delete_url_def Let_def distinct_map_filter)

lemma record_click_keeps_urls:
  "urls (snd (record_click db out now c ip co ci br dv rt)) = urls db"
  by (simp add: record_click_def)

subsection \<open>Routing of alphanumeric codes\<close>

lemma isalnum_str_chars:
  assumes "isalnum tbl (str p)" and "ch \<in> set p"
  shows "cp_isalnum tbl (of_char ch)"
  using assms by (auto simp: isalnum_def str_def list_all_iff)

lemma do_GET_alnum_code:
  assumes "isalnum tbl (str p)" and "path req = ''/'' @ p"
  shows "do_GET db req = handle_redirect db req (str p)"
proof -
  have ne: "p \<noteq> []" using assms(1) by (simp add: isalnum_def str_def)
  have no_slash: "CHR ''/'' \<notin> set p"
  proof
    assume "CHR ''/'' \<in> set p"
    then have "cp_isalnum tbl (of_char (CHR ''/''))" by (rule isalnum_str_chars [OF assms(1)])
    then show False by (simp add: cp_isalnum_def)
  qed
  have no_q: "CHR ''?'' \<notin> set p"
  proof
    assume "CHR ''?'' \<in> set p"
    then have "cp_isalnum tbl (of_char (CHR ''?''))" by (rule isalnum_str_chars [OF assms(1)])
    then show False by (simp add: cp_isalnum_def)
  qed
  have no_dot: "CHR ''.'' \<notin> set p"
  proof
    assume "CHR ''.'' \<in> set p"
    then have "cp_isalnum tbl (of_char (CHR ''.''))" by (rule isalnum_str_chars [OF assms(1)])
    then show False by (simp add: cp_isalnum_def)
  qed
  have stripped: "dropWhile (\<lambda>ch. ch = CHR ''/'') (path req) = p"
    using ne no_slash by (cases p) (auto simp: assms(2))
  have idx: "p \<noteq> ''index.html''" using no_dot by auto
  have api: "take 4 p \<noteq> ''api/''"
  proof
    assume "take 4 p = ''api/''"
    then have "CHR ''/'' \<in> set (take 4 p)" by simp
    then show False using no_slash by (meson in_set_takeD)
  qed
  show ?thesis using ne no_q idx api by (simp add: do_GET_def stripped Let_def)
qed

text \<open>No request path decodes to a code that has a code point from U+0100 on.\<close>

lemma wide_code_unreachable:
  assumes "n \<in> set c" and "256 \<le> n"
  shows "str p \<noteq> c"
proof
  assume "str p = c"
  then obtain ch where "n = of_char ch" using assms(1) by (auto simp: str_def)
  moreover have "(of_char ch :: nat) < 256" by simp
  ultimately show False using assms(2) by simp
qed

subsection \<open>The found branch of the redirect\<close>

lemma encode_latin1_verbatim:
  assumes "encode_latin1 u = Some loc"
  shows "str loc = u"
proof -
  have small: "\<forall>n \<in> set u. n < 256" and loc: "loc = map char_of u"
    using assms by (auto simp: encode_latin1_def list_all_iff split: if_splits)
  have "map of_char (map char_of u) = u"
    using small by (induction u) simp_all
  then show ?thesis by (simp add: str_def loc)
qed

lemma handle_redirect_found:
  assumes "get_url db (get_url_outcome req) (request_time req) c = Some r"
    and "record_click_outcome req = Sqlite_ok"
  shows "fst (handle_redirect db req c) =
           (case encode_latin1 (original_url r) of
              None \<Rightarrow> Inl UnicodeEncodeError
            | Some loc \<Rightarrow> Inr \<lparr>status = 301, headers = [(''Location'', loc)], body = Empty_body\<rparr>)"
    and "\<exists>k. clicks (snd (handle_redirect db req c)) = clicks db @ [k] \<and> click_code k = c"
    and "urls (snd (handle_redirect db req c)) = urls db"
proof -
  show "fst (handle_redirect db req c) =
           (case encode_latin1 (original_url r) of
              None \<Rightarrow> Inl UnicodeEncodeError
            | Some loc \<Rightarrow> Inr \<lparr>status = 301, headers = [(''Location'', loc)], body = Empty_body\<rparr>)"
    by (cases "encode_latin1 (original_url r)")
       (simp_all add: handle_redirect_def assms(1) Let_def split: prod.split)
  show "\<exists>k. clicks (snd (handle_redirect db req c)) = clicks db @ [k] \<and> click_code k = c"
    by (cases "encode_latin1 (original_url r)")
       (simp_all add: handle_redirect_def assms record_click_def Let_def)
  show "urls (snd (handle_redirect db req c)) = urls db"
    by (cases "encode_latin1 (original_url r)")
       (simp_all add: handle_redirect_def assms record_click_def Let_def)
qed

text \<open>
  A link whose target has only code points below U+0100: the redirect answers 301 with
  the target in the Location header and stores one click.
\<close>

lemma redirect_latin1_target:
  assumes "distinct (map short_code (urls db))"
    and "r \<in> set (urls db)" and "is_active r"
    and "\<forall>e. expires_at r = Some e \<longrightarrow> \<not> request_time req > e"
    and "get_url_outcome req = Sqlite_ok" and "record_click_outcome req = Sqlite_ok"
    and "encode_latin1 (original_url r) = Some loc"
  shows "fst (handle_redirect db req (short_code r)) =
           Inr \<lparr>status = 301, headers = [(''Location'', loc)], body = Empty_body\<rparr> \<and>
         str loc = original_url r \<and>
         (\<exists>k. clicks (snd (handle_redirect db req (short_code r))) = clicks db @ [k] \<and>
              click_code k = short_code r) \<and>
         get_click_count (snd (handle_redirect db req (short_code r))) Sqlite_ok (short_code r) =
           Suc (get_click_count db Sqlite_ok (short_code r)) \<and>
         urls (snd (handle_redirect db req (short_code r))) = urls db"
proof -
  have "find (\<lambda>x. short_code x = short_code r \<and> is_active x) (urls db) = Some r"
    using find_distinct_code [OF assms(1,2), of "short_code r" is_active] assms(3) by simp
  then have g: "get_url db (get_url_outcome req) (request_time req) (short_code r) = Some r"
    using assms(4,5) by (auto simp: get_url_def split: option.splits)
  note F = handle_redirect_found [OF g assms(6)]
  have a: "fst (handle_redirect db req (short_code r)) =
           Inr \<lparr>status = 301, headers = [(''Location'', loc)], body = Empty_body\<rparr>"
    using F(1) by (simp add: assms(7))
  have v: "str loc = original_url r" by (rule encode_latin1_verbatim [OF assms(7)])
  have c: "get_click_count (snd (handle_redirect db req (short_code r))) Sqlite_ok (short_code r) =
           Suc (get_click_count db Sqlite_ok (short_code r))"
    using F(2) by (auto simp: get_click_count_def)
  from a v F(2) c F(3) show ?thesis by blast
qed

text \<open>
  A link whose target has a code point from U+0100 on: the click is stored and the
  handler raises instead of answering.
\<close>

lemma redirect_wide_target:
  assumes "get_url db (get_url_outcome req) (request_time req) c = Some r"
    and "record_click_outcome req = Sqlite_ok"
    and "n \<in> set (original_url r)" and "256 \<le> n"
  shows "fst (handle_redirect db req c) = Inl UnicodeEncodeError \<and>
         get_click_count (snd (handle_redirect db req c)) Sqlite_ok c =
           Suc (get_click_count db Sqlite_ok c)"
proof -
  have "\<not> list_all (\<lambda>n. n < 256) (original_url r)"
  proof
    assume "list_all (\<lambda>n. n < 256) (original_url r)"
    then have "n < 256" using assms(3) by (simp add: list_all_iff)
    then show False using assms(4) by simp
  qed
  then have "encode_latin1 (original_url r) = None"
    by (simp add: encode_latin1_def)
  then have a: "fst (handle_redirect db req c) = Inl UnicodeEncodeError"
    using handle_redirect_found(1) [OF assms(1,2)] by simp
  have b: "get_click_count (snd (handle_redirect db req c)) Sqlite_ok c =
           Suc (get_click_count db Sqlite_ok c)"
    using handle_redirect_found(2) [OF assms(1,2)] by (auto simp: get_click_count_def)
  from a b show ?thesis by simp
qed

subsection \<open>The generator loop\<close>








subsection \<open>Creation with a custom code\<close>

lemma truthy_code_Some: "k \<noteq> [] \<Longrightarrow> truthy_code (Some k) = Some k"
  by (simp add: truthy_code_def)

lemma shorten_url_live_code:
  assumes "\<not> is_blacklisted env u"
    and "validate \<longrightarrow> check_dns_resolution env u \<and> check_url_active env u"
    and "k \<noteq> []" and "length k \<le> MAX_CUSTOM_LENGTH" and "isalnum (unicode_isalnum env) k"
    and "get_url db (lookup_outcome env 0) (lookup_time env 0) k \<noteq> None"
  shows "shorten_url db env u (Some k) days nts tgs validate = Some (failure msg_custom_taken, db)"
  using assms by (auto simp: shorten_url_def validate_url_truthy_def truthy_code_Some)

lemma store_url_live:
  assumes "store_url db env k u cust days nts tgs = (res, db1)" and "success res"
    and "case days of None \<Rightarrow> True | Some d \<Rightarrow> d = 0 \<or> t \<le> expiry_time env + d * day_length"
  shows "get_url db1 Sqlite_ok t k \<noteq> None"
proof -
  define ex where "ex = (case days of None \<Rightarrow> None
                     | Some d \<Rightarrow> if d = 0 then None else Some (expiry_time env + d * day_length))"
  define row where "row = \<lparr>url_id = Suc (url_seq db), short_code = k, original_url = u, custom = cust,
                 created_at = insert_time env, expires_at = ex, is_active = True, row_notes = nts,
                 tags = tgs, password = None\<rparr>"
  have ins: "insert_url db (insert_outcome env) (insert_time env) k u cust ex nts tgs =
          (True, db\<lparr>urls := urls db @ [row], url_seq := Suc (url_seq db)\<rparr>) \<and> \<not> code_exists db k"
    using assms(1,2)
    by (auto simp: store_url_def insert_url_def ex_def row_def failure_def Let_def split: if_splits)
  then have db1: "urls db1 = urls db @ [row]"
    using assms(1) by (auto simp: store_url_def ex_def Let_def)
  have "\<forall>r \<in> set (urls db). short_code r \<noteq> k" using ins by (auto simp: code_exists_def)
  then have f: "find (\<lambda>r. short_code r = k \<and> is_active r) (urls db1) = Some row"
    unfolding db1 by (rule find_append_new) (simp_all add: row_def)
  have "ex = None \<or> (\<exists>e. ex = Some e \<and> t \<le> e)"
    using assms(3) by (auto simp: ex_def split: option.splits)
  then have "expires_at row = None \<or> (\<exists>e. expires_at row = Some e \<and> t \<le> e)"
    by (simp add: row_def)
  then show ?thesis using f by (auto simp: get_url_def)
qed

lemma shorten_url_custom_checked:
  assumes "shorten_url db env u (Some k) days nts tgs validate = Some (res, db1)" and "success res"
    and "k \<noteq> []"
  shows "length k \<le> MAX_CUSTOM_LENGTH \<and> isalnum (unicode_isalnum env) k \<and>
         store_url db env k u True days nts tgs = (res, db1)"
  using assms
  by (auto simp: shorten_url_def truthy_code_Some failure_def split: if_splits)

text \<open>
  A custom code that some row holds, whatever the row's flag and expiry: the call fails
  and the database is unchanged; the message depends on whether the lookup sees the row.
\<close>

lemma shorten_url_held_code:
  assumes "\<not> is_blacklisted env u"
    and "validate \<longrightarrow> check_dns_resolution env u \<and> check_url_active env u"
    and "k \<noteq> []" and "length k \<le> MAX_CUSTOM_LENGTH" and "isalnum (unicode_isalnum env) k"
    and "code_exists db k"
  shows "shorten_url db env u (Some k) days nts tgs validate =
           Some (failure (if get_url db (lookup_outcome env 0) (lookup_time env 0) k \<noteq> None
                          then msg_custom_taken else msg_database_error), db)"
proof (cases "get_url db (lookup_outcome env 0) (lookup_time env 0) k \<noteq> None")
  case True
  then show ?thesis using shorten_url_live_code [OF assms(1-5) True] by simp
next
  case False
  have "store_url db env k u True days nts tgs = (failure msg_database_error, db)"
    using assms(6) by (simp add: store_url_def insert_url_def Let_def)
  then show ?thesis
    using False assms(1-5)
    by (auto simp: shorten_url_def validate_url_truthy_def truthy_code_Some)
qed

text \<open>
  A second creation with the custom code of a creation that has just succeeded is
  refused with the custom-code-taken message, as long as the lookup does not raise and
  the first link has not expired.
\<close>

lemma second_creation_taken:
  assumes "\<not> is_blacklisted env u"
    and "validate \<longrightarrow> check_dns_resolution env u \<and> check_url_active env u"
    and "k \<noteq> []"
    and "shorten_url db0 env0 u0 (Some k) days0 nts0 tgs0 validate0 = Some (res, db)"
    and "success res" and "lookup_outcome env 0 = Sqlite_ok"
    and "unicode_isalnum env = unicode_isalnum env0"
    and "case days0 of None \<Rightarrow> True
         | Some d \<Rightarrow> d = 0 \<or> lookup_time env 0 \<le> expiry_time env0 + d * day_length"
  shows "shorten_url db env u (Some k) days nts tgs validate = Some (failure msg_custom_taken, db)"
proof -
  from shorten_url_custom_checked [OF assms(4,5,3)]
  have len: "length k \<le> MAX_CUSTOM_LENGTH" and al: "isalnum (unicode_isalnum env0) k"
    and st: "store_url db0 env0 k u0 True days0 nts0 tgs0 = (res, db)" by simp_all
  have al': "isalnum (unicode_isalnum env) k" using al assms(7) by simp
  have "get_url db Sqlite_ok (lookup_time env 0) k \<noteq> None"
    by (rule store_url_live [OF st assms(5,8)])
  then have "get_url db (lookup_outcome env 0) (lookup_time env 0) k \<noteq> None"
    by (simp add: assms(6))
  then show ?thesis by (rule shorten_url_live_code [OF assms(1,2,3) len al'])
qed

section \<open>Properties of the specification\<close>

text \<open>
  C1 (redirect correctness), at a stored link that the code does not redirect.  A
  creation with the custom code \<open>abc\<close> for a target that ends in three katakana succeeds
  and stores the link.  In the registry it leaves, the lookup for \<open>abc\<close> finds the link,
  the target has no latin-1 encoding, and the GET for \<open>/abc\<close> stores one click for
  \<open>abc\<close> and then raises UnicodeEncodeError: no 301 and no Location header are sent.
\<close>

theorem redirect_non_latin1_target:
  "shorten_url empty_db calm_env katakana_url (Some (str ''abc'')) None [] [] True =
     Some (\<lparr>success = True, result_code = Some (str ''abc''),
             shortened_url = Some (str ''http://localhost:8080/abc''), error = None\<rparr>,
           katakana_db) \<and>
   get_url katakana_db Sqlite_ok 100 (str ''abc'') = Some (hd (urls katakana_db)) \<and>
   original_url (hd (urls katakana_db)) = katakana_url \<and>
   encode_latin1 katakana_url = None \<and>
   path abc_request = ''/abc'' \<and>
   fst (do_GET katakana_db abc_request) = Inl UnicodeEncodeError \<and>
   get_click_count katakana_db Sqlite_ok (str ''abc'') = 0 \<and>
   get_click_count (snd (do_GET katakana_db abc_request)) Sqlite_ok (str ''abc'') = 1"
proof -
  have al: "isalnum (\<lambda>n. False) (str ''abc'')"
    by (simp add: isalnum_def cp_isalnum_def str_def)
  have s: "shorten_url empty_db calm_env katakana_url (Some (str ''abc'')) None [] [] True =
     Some (\<lparr>success = True, result_code = Some (str ''abc''),
             shortened_url = Some (str ''http://localhost:8080/abc''), error = None\<rparr>,
           katakana_db)"
    using al
    by (simp add: shorten_url_def validate_url_truthy_def truthy_code_def get_url_def empty_db_def
        store_url_def insert_url_def code_exists_def katakana_db_def plain_row_def
        CUSTOM_DOMAIN_def MAX_CUSTOM_LENGTH_def CHECK_URL_ACTIVE_def calm_env_def str_def)
  have g: "get_url katakana_db Sqlite_ok 100 (str ''abc'') = Some (hd (urls katakana_db))"
    by (simp add: get_url_def katakana_db_def plain_row_def)
  have u: "original_url (hd (urls katakana_db)) = katakana_url"
    by (simp add: katakana_db_def)
  have e: "encode_latin1 katakana_url = None"
    by (simp add: encode_latin1_def katakana_url_def)
  have p: "path abc_request = ''/abc''" by (simp add: abc_request_def)
  have d: "do_GET katakana_db abc_request = handle_redirect katakana_db abc_request (str ''abc'')"
    by (rule do_GET_alnum_code [OF al]) (simp add: abc_request_def)
  have g': "get_url katakana_db (get_url_outcome abc_request) (request_time abc_request) (str ''abc'') =
              Some (hd (urls katakana_db))"
    using g by (simp add: abc_request_def)
  have ok: "record_click_outcome abc_request = Sqlite_ok" by (simp add: abc_request_def)
  have n0: "get_click_count katakana_db Sqlite_ok (str ''abc'') = 0"
    by (simp add: get_click_count_def katakana_db_def)
  have w: "12506 \<in> set (original_url (hd (urls katakana_db)))"
    by (simp add: u katakana_url_def)
  have "fst (handle_redirect katakana_db abc_request (str ''abc'')) = Inl UnicodeEncodeError \<and>
        get_click_count (snd (handle_redirect katakana_db abc_request (str ''abc''))) Sqlite_ok
          (str ''abc'') = Suc (get_click_count katakana_db Sqlite_ok (str ''abc''))"
    by (rule redirect_wide_target [OF g' ok w]) simp
  then show ?thesis using s g u e p n0 by (simp add: d)
qed

text \<open>
  C2 (lookup liveness).  With unique codes and a lookup that does not raise, \<open>get_url\<close>
  returns nothing exactly when no row has the code, or the row with the code is inactive,
  or that row has an expiry time before the current time.  For an expired row that is
  still flagged active the lookup returns nothing and the row is still in the active
  listing: the lookup reads the table and writes nothing.
\<close>

theorem lookup_liveness:
  assumes "distinct (map short_code (urls db))"
  shows "(get_url db Sqlite_ok now c = None) =
           ((\<forall>r \<in> set (urls db). short_code r \<noteq> c) \<or>
            (\<exists>r \<in> set (urls db). short_code r = c \<and>
               (\<not> is_active r \<or> (\<exists>e. expires_at r = Some e \<and> e < now)))) \<and>
         (\<forall>r \<in> set (urls db). short_code r = c \<and> is_active r \<and>
               (\<exists>e. expires_at r = Some e \<and> e < now) \<longrightarrow>
               get_url db out now c = None \<and> r \<in> set (get_all_urls db Sqlite_ok False))"
proof -
  have first: "(get_url db Sqlite_ok now c = None) =
           ((\<forall>r \<in> set (urls db). short_code r \<noteq> c) \<or>
            (\<exists>r \<in> set (urls db). short_code r = c \<and>
               (\<not> is_active r \<or> (\<exists>e. expires_at r = Some e \<and> e < now))))"
  proof (cases "\<forall>r \<in> set (urls db). short_code r \<noteq> c")
    case True
    then show ?thesis using get_url_absent [OF True] by simp
  next
    case False
    then obtain r where r: "r \<in> set (urls db)" "short_code r = c" by blast
    have uniq: "r' = r" if "r' \<in> set (urls db)" "short_code r' = c" for r'
      using assms r that by (simp add: distinct_map inj_on_def)
    have g: "(get_url db Sqlite_ok now c = None) =
               (\<not> is_active r \<or> (\<exists>e. expires_at r = Some e \<and> e < now))"
      by (simp add: get_url_row [OF assms r])
    have h: "(\<exists>r' \<in> set (urls db). short_code r' = c \<and>
               (\<not> is_active r' \<or> (\<exists>e. expires_at r' = Some e \<and> e < now))) =
          (\<not> is_active r \<or> (\<exists>e. expires_at r = Some e \<and> e < now))"
      using r uniq by blast
    show ?thesis by (simp only: g h False simp_thms)
  qed
  have second: "get_url db out now c = None \<and> r \<in> set (get_all_urls db Sqlite_ok False)"
    if "r \<in> set (urls db)" "short_code r = c" "is_active r" "\<exists>e. expires_at r = Some e \<and> e < now" for r
  proof -
    have "get_url db Sqlite_ok now c = None"
      using that(4) by (simp add: get_url_row [OF assms that(1,2)])
    then have "get_url db out now c = None" using get_url_error by (cases out) simp_all
    moreover have "r \<in> set (get_all_urls db Sqlite_ok False)"
      using that(1,3) by (simp add: get_all_urls_def)
    ultimately show ?thesis by simp
  qed
  show ?thesis
  proof (rule conjI)
    show "(get_url db Sqlite_ok now c = None) =
           ((\<forall>r \<in> set (urls db). short_code r \<noteq> c) \<or>
            (\<exists>r \<in> set (urls db). short_code r = c \<and>
               (\<not> is_active r \<or> (\<exists>e. expires_at r = Some e \<and> e < now))))" by (rule first)
  next
    show "\<forall>r \<in> set (urls db). short_code r = c \<and> is_active r \<and>
               (\<exists>e. expires_at r = Some e \<and> e < now) \<longrightarrow>
               get_url db out now c = None \<and> r \<in> set (get_all_urls db Sqlite_ok False)"
    proof (intro ballI impI)
      fix r
      assume a: "r \<in> set (urls db)"
        and b: "short_code r = c \<and> is_active r \<and> (\<exists>e. expires_at r = Some e \<and> e < now)"
      from b have b1: "short_code r = c" and b2: "is_active r"
        and b3: "\<exists>e. expires_at r = Some e \<and> e < now" by simp_all
      show "get_url db out now c = None \<and> r \<in> set (get_all_urls db Sqlite_ok False)"
        by (rule second [OF a b1 b2 b3])
    qed
  qed
qed

theorem lookup_liveness_witness:
  "distinct (map short_code (urls expired_db)) \<and>
   get_url expired_db Sqlite_ok 100 (str ''abc'') = None \<and>
   hd (urls expired_db) \<in> set (get_all_urls expired_db Sqlite_ok False) \<and>
   is_active (hd (urls expired_db)) \<and>
   get_url expired_db Sqlite_ok 50 (str ''abc'') \<noteq> None"
proof -
  have h: "distinct (map short_code (urls expired_db))" by (simp add: expired_db_def)
  have r: "hd (urls expired_db) \<in> set (urls expired_db)" by (simp add: expired_db_def)
  have f: "short_code (hd (urls expired_db)) = (str ''abc'') \<and> is_active (hd (urls expired_db)) \<and>
           (\<exists>e. expires_at (hd (urls expired_db)) = Some e \<and> e < 100)"
    by (simp add: expired_db_def plain_row_def str_def)
  have g: "\<not> (\<not> is_active (hd (urls expired_db)) \<or>
             (\<exists>e. expires_at (hd (urls expired_db)) = Some e \<and> e < 50))"
    by (simp add: expired_db_def plain_row_def str_def)
  have s: "set (urls expired_db) = {hd (urls expired_db)}" by (simp add: expired_db_def)
  have "get_url expired_db Sqlite_ok 50 (str ''abc'') \<noteq> None"
    using lookup_liveness [OF h, of 50 "str ''abc''" Sqlite_ok] f g by (simp add: s)
  then show ?thesis
    using lookup_liveness [OF h, of 100 "str ''abc''" Sqlite_ok] h r f by blast
qed

text \<open>
  C3 (update of a missing code), as the code has it.  When no row has the code and at
  least one field is supplied, \<open>update_url\<close> leaves the database as it was and returns
  whether the UPDATE statement ran: true when it did, false only when it raised.
\<close>

theorem update_missing_code:
  assumes "\<not> code_exists db c"
    and "ou \<noteq> None \<or> nts \<noteq> None \<or> tgs \<noteq> None \<or> expiry \<noteq> None"
  shows "update_url db out c ou nts tgs expiry = (out = Sqlite_ok, db)"
proof -
  have "map (\<lambda>r. if short_code r = c then set_fields ou nts tgs expiry r else r) (urls db) = urls db"
    using assms(1) by (intro map_id_absent) (simp add: code_exists_def)
  then show ?thesis using assms(2)
    by (cases out) (auto simp: update_url_def)
qed

theorem update_missing_code_witness:
  "\<not> code_exists abc_db (str ''nope'') \<and>
   update_url abc_db Sqlite_ok (str ''nope'') None (Some (str ''memo'')) None None = (True, abc_db) \<and>
   update_url abc_db Sqlite_error (str ''nope'') None (Some (str ''memo'')) None None = (False, abc_db)"
proof -
  have h: "\<not> code_exists abc_db (str ''nope'')" by (simp add: code_exists_def abc_db_def plain_row_def str_def)
  have f: "None \<noteq> (None :: pystr option) \<or> Some (str ''memo'') \<noteq> None \<or> None \<noteq> (None :: pystr option) \<or>
           None \<noteq> (None :: timestamp option)" by simp
  show ?thesis
    using h update_missing_code [OF h f, of Sqlite_ok] update_missing_code [OF h f, of Sqlite_error]
    by simp
qed

theorem update_absent_code_counterexample:
  "\<not> code_exists empty_db (str ''nope'') \<and>
   update_url empty_db Sqlite_ok (str ''nope'') (Some (str ''https://example.com/other'')) None None None =
     (True, empty_db)"
  by (simp add: code_exists_def empty_db_def update_url_def)




text \<open>
  C5 (custom code collision), at registries where the code reports another error.  The
  code \<open>abc\<close> is held by a row that is flagged active but has expired, or by a row that
  was soft-deleted, or by the row that a creation with \<open>expires_days = -1\<close> has just
  written.  In each registry a creation with the custom code \<open>abc\<close> fails and leaves the
  registry as it was, but the message is the storage-error message, which is not the
  custom-code-taken message.
\<close>

theorem custom_code_held_by_dead_row:
  "is_active (hd (urls expired_db)) \<and> short_code (hd (urls expired_db)) = str ''abc'' \<and>
   shorten_url expired_db calm_env (str ''https://example.com/page'') (Some (str ''abc'')) None
       [] [] True = Some (failure msg_database_error, expired_db) \<and>
   code_exists deleted_db (str ''abc'') \<and>
   shorten_url deleted_db calm_env (str ''https://example.com/page'') (Some (str ''abc'')) None
       [] [] True = Some (failure msg_database_error, deleted_db) \<and>
   shorten_url empty_db calm_env (str ''https://example.com/page'') (Some (str ''abc''))
       (Some (- 1)) [] [] True =
     Some (\<lparr>success = True, result_code = Some (str ''abc''),
             shortened_url = Some (str ''http://localhost:8080/abc''), error = None\<rparr>, lapsed_db) \<and>
   shorten_url lapsed_db calm_env (str ''https://example.com/page'') (Some (str ''abc''))
       (Some (- 1)) [] [] True = Some (failure msg_database_error, lapsed_db) \<and>
   error (failure msg_database_error) \<noteq> error (failure msg_custom_taken)"
proof -
  have a: "\<not> is_blacklisted calm_env (str ''https://example.com/page'')"
    by (simp add: calm_env_def)
  have b: "True \<longrightarrow> check_dns_resolution calm_env (str ''https://example.com/page'') \<and>
            check_url_active calm_env (str ''https://example.com/page'')"
    by (simp add: calm_env_def)
  have c: "str ''abc'' \<noteq> []" by (simp add: str_def)
  have len: "length (str ''abc'') \<le> MAX_CUSTOM_LENGTH" by (simp add: MAX_CUSTOM_LENGTH_def str_def)
  have al: "isalnum (unicode_isalnum calm_env) (str ''abc'')"
    by (simp add: isalnum_def cp_isalnum_def str_def)
  note H = shorten_url_held_code [OF a b c len al]
  have e1: "is_active (hd (urls expired_db)) \<and> short_code (hd (urls expired_db)) = str ''abc''"
    by (simp add: expired_db_def plain_row_def)
  have x1: "code_exists expired_db (str ''abc'')"
    by (simp add: code_exists_def expired_db_def plain_row_def)
  have g1: "get_url expired_db (lookup_outcome calm_env 0) (lookup_time calm_env 0) (str ''abc'') = None"
    by (simp add: get_url_def expired_db_def plain_row_def calm_env_def)
  have r1: "shorten_url expired_db calm_env (str ''https://example.com/page'') (Some (str ''abc'')) None
       [] [] True = Some (failure msg_database_error, expired_db)"
    using H [OF x1, of None "[]" "[]"] g1 by simp
  have x2: "code_exists deleted_db (str ''abc'')"
    by (simp add: code_exists_def deleted_db_def plain_row_def)
  have g2: "get_url deleted_db (lookup_outcome calm_env 0) (lookup_time calm_env 0) (str ''abc'') = None"
    by (simp add: get_url_def deleted_db_def plain_row_def calm_env_def)
  have r2: "shorten_url deleted_db calm_env (str ''https://example.com/page'') (Some (str ''abc'')) None
       [] [] True = Some (failure msg_database_error, deleted_db)"
    using H [OF x2, of None "[]" "[]"] g2 by simp
  have r3: "shorten_url empty_db calm_env (str ''https://example.com/page'') (Some (str ''abc''))
       (Some (- 1)) [] [] True =
     Some (\<lparr>success = True, result_code = Some (str ''abc''),
             shortened_url = Some (str ''http://localhost:8080/abc''), error = None\<rparr>, lapsed_db)"
    using a b c len al
    by (simp add: shorten_url_def validate_url_truthy_def truthy_code_Some get_url_def empty_db_def
        store_url_def insert_url_def code_exists_def lapsed_db_def plain_row_def CUSTOM_DOMAIN_def
        day_length_def calm_env_def str_def)
  have x4: "code_exists lapsed_db (str ''abc'')"
    by (simp add: code_exists_def lapsed_db_def plain_row_def)
  have g4: "get_url lapsed_db (lookup_outcome calm_env 0) (lookup_time calm_env 0) (str ''abc'') = None"
    by (simp add: get_url_def lapsed_db_def plain_row_def calm_env_def)
  have r4: "shorten_url lapsed_db calm_env (str ''https://example.com/page'') (Some (str ''abc''))
       (Some (- 1)) [] [] True = Some (failure msg_database_error, lapsed_db)"
    using H [OF x4, of "Some (- 1)" "[]" "[]"] g4 by simp
  have m: "error (failure msg_database_error) \<noteq> error (failure msg_custom_taken)"
    by (simp add: failure_def msg_database_error_def msg_custom_taken_def str_def)
  from e1 r1 x2 r2 r3 r4 m show ?thesis by blast
qed

text \<open>
  C6 (unknown code).  Whenever the lookup for the code returns nothing, the redirect
  answers 404 with the fixed message and returns the database it was given, so no click
  is written.  The same holds for a GET whose path is a slash followed by such a code,
  when the code is alphanumeric.
\<close>

theorem redirect_not_found:
  assumes "get_url db (get_url_outcome req) (request_time req) c = None"
  shows "handle_redirect db req c = (Inr (send_error 404 msg_not_found), db) \<and>
         map_sum id status (fst (handle_redirect db req c)) = Inr 404 \<and>
         clicks (snd (handle_redirect db req c)) = clicks db \<and>
         (isalnum tbl (str p) \<and> path req = ''/'' @ p \<and> c = str p \<longrightarrow>
            do_GET db req = (Inr (send_error 404 msg_not_found), db))"
proof -
  have a: "handle_redirect db req c = (Inr (send_error 404 msg_not_found), db)"
    using assms by (simp add: handle_redirect_def)
  have b: "map_sum id status (fst (handle_redirect db req c)) = Inr 404"
    by (simp add: a send_error_def)
  have d: "isalnum tbl (str p) \<and> path req = ''/'' @ p \<and> c = str p \<longrightarrow>
             do_GET db req = (Inr (send_error 404 msg_not_found), db)"
    using do_GET_alnum_code [of tbl p req db] a by auto
  from a b d show ?thesis by simp
qed

theorem redirect_not_found_witness:
  "get_url abc_db (get_url_outcome abc_request) (request_time abc_request)
     (str ''doesnotexist'') = None \<and>
   handle_redirect abc_db abc_request (str ''doesnotexist'') =
     (Inr (send_error 404 msg_not_found), abc_db)"
proof -
  have h: "get_url abc_db (get_url_outcome abc_request) (request_time abc_request)
             (str ''doesnotexist'') = None"
    by (simp add: get_url_def abc_db_def plain_row_def abc_request_def str_def)
  show ?thesis using h redirect_not_found [OF h] by simp
qed

text \<open>
  C7 (hard-delete cascade).  After \<open>hard_delete_url\<close> has returned true for a code, no
  row of the urls table and no row of the inactive-inclusive listing has that code, no
  click row refers to it, its click count is 0 and its lookup returns nothing.
\<close>

theorem hard_delete_cascade:
  assumes "hard_delete_url db out1 out2 c = (True, db')"
  shows "(\<forall>r \<in> set (urls db'). short_code r \<noteq> c) \<and>
         (\<forall>r \<in> set (get_all_urls db' out True). short_code r \<noteq> c) \<and>
         (\<forall>k \<in> set (clicks db'). click_code k \<noteq> c) \<and>
         get_click_count db' out c = 0 \<and>
         get_url db' out now c = None"
proof -
  from assms have db': "db' = db\<lparr>clicks := filter (\<lambda>k. click_code k \<noteq> c) (clicks db),
                                 urls := filter (\<lambda>r. short_code r \<noteq> c) (urls db)\<rparr>"
    by (auto simp: hard_delete_url_def Let_def split: if_splits)
  have u: "\<forall>r \<in> set (urls db'). short_code r \<noteq> c" by (simp add: db')
  have k: "\<forall>k \<in> set (clicks db'). click_code k \<noteq> c" by (simp add: db')
  have l: "\<forall>r \<in> set (get_all_urls db' out True). short_code r \<noteq> c"
    using u by (simp add: get_all_urls_def)
  have n: "get_click_count db' out c = 0"
    using k by (simp add: get_click_count_def filter_empty_conv)
  have "find (\<lambda>r. short_code r = c \<and> is_active r) (urls db') = None"
    using u by (auto simp: find_None_iff)
  then have g: "get_url db' out now c = None" by (simp add: get_url_def)
  from u k l n g show ?thesis by blast
qed

theorem hard_delete_cascade_witness:
  "hard_delete_url abc_db Sqlite_ok Sqlite_ok (str ''abc'') = (True, empty_db\<lparr>url_seq := 1, click_seq := 1\<rparr>) \<and>
   get_click_count abc_db Sqlite_ok (str ''abc'') = 1 \<and>
   get_click_count (empty_db\<lparr>url_seq := 1, click_seq := 1\<rparr>) Sqlite_ok (str ''abc'') = 0 \<and>
   get_url (empty_db\<lparr>url_seq := 1, click_seq := 1\<rparr>) Sqlite_ok 100 (str ''abc'') = None"
proof -
  have h: "hard_delete_url abc_db Sqlite_ok Sqlite_ok (str ''abc'') =
             (True, empty_db\<lparr>url_seq := 1, click_seq := 1\<rparr>)"
    by (simp add: hard_delete_url_def abc_db_def plain_row_def str_def abc_click_def empty_db_def Let_def)
  have n: "get_click_count abc_db Sqlite_ok (str ''abc'') = 1"
    by (simp add: get_click_count_def abc_db_def abc_click_def)
  show ?thesis using h n hard_delete_cascade [OF h, of Sqlite_ok 100] by simp
qed

text \<open>
  C8 (soft-delete visibility).  After \<open>delete_url\<close> has run for the code of an existing
  row, the lookup of the code returns nothing, the row (now flagged inactive) is in the
  inactive-inclusive listing, which is as long as the table was, and the clicks table,
  the click query and the click count for the code are what they were.
\<close>

theorem soft_delete_visibility:
  assumes "delete_url db Sqlite_ok c = (ok, db')"
    and "r \<in> set (urls db)" and "short_code r = c"
  shows "get_url db' out now c = None \<and>
         r\<lparr>is_active := False\<rparr> \<in> set (get_all_urls db' Sqlite_ok True) \<and>
         length (get_all_urls db' Sqlite_ok True) = length (urls db) \<and>
         clicks db' = clicks db \<and>
         get_clicks db' out (Some c) = get_clicks db out (Some c) \<and>
         get_click_count db' out c = get_click_count db out c"
proof -
  from assms(1) have db': "db' = db\<lparr>urls := map (\<lambda>r. if short_code r = c then r\<lparr>is_active := False\<rparr> else r) (urls db)\<rparr>"
    by (simp add: delete_url_def)
  have g: "get_url db' out now c = None"
    by (simp add: db' get_url_def find_none_map_inactive)
  have "r\<lparr>is_active := False\<rparr> \<in> set (urls db')"
    using assms(2,3) by (force simp: db')
  then have l: "r\<lparr>is_active := False\<rparr> \<in> set (get_all_urls db' Sqlite_ok True)"
    by (simp add: get_all_urls_def)
  have n: "length (get_all_urls db' Sqlite_ok True) = length (urls db)"
    by (simp add: get_all_urls_def db')
  have k: "clicks db' = clicks db" by (simp add: db')
  have q: "get_clicks db' out (Some c) = get_clicks db out (Some c)"
    by (simp add: get_clicks_def k)
  have m: "get_click_count db' out c = get_click_count db out c"
    by (simp add: get_click_count_def k)
  from g l n k q m show ?thesis by blast
qed

theorem soft_delete_visibility_witness:
  "delete_url abc_db Sqlite_ok (str ''abc'') =
     (True, abc_db\<lparr>urls := [(plain_row 1 (str ''abc''))\<lparr>is_active := False\<rparr>]\<rparr>) \<and>
   plain_row 1 (str ''abc'') \<in> set (urls abc_db) \<and>
   get_url (abc_db\<lparr>urls := [(plain_row 1 (str ''abc''))\<lparr>is_active := False\<rparr>]\<rparr>) Sqlite_ok 100 (str ''abc'') = None \<and>
   (plain_row 1 (str ''abc''))\<lparr>is_active := False\<rparr> \<in>
     set (get_all_urls (abc_db\<lparr>urls := [(plain_row 1 (str ''abc''))\<lparr>is_active := False\<rparr>]\<rparr>) Sqlite_ok True) \<and>
   get_click_count (abc_db\<lparr>urls := [(plain_row 1 (str ''abc''))\<lparr>is_active := False\<rparr>]\<rparr>) Sqlite_ok (str ''abc'') =
     get_click_count abc_db Sqlite_ok (str ''abc'')"
proof -
  have h: "delete_url abc_db Sqlite_ok (str ''abc'') =
             (True, abc_db\<lparr>urls := [(plain_row 1 (str ''abc''))\<lparr>is_active := False\<rparr>]\<rparr>)"
    by (simp add: delete_url_def abc_db_def plain_row_def str_def)
  have r: "plain_row 1 (str ''abc'') \<in> set (urls abc_db)" by (simp add: abc_db_def)
  have c: "short_code (plain_row 1 (str ''abc'')) = (str ''abc'')" by (simp add: plain_row_def str_def)
  show ?thesis using h r soft_delete_visibility [OF h r c, of Sqlite_ok 100] by blast
qed

text \<open>
  C9 (aggregate statistics).  When no statement raises, \<open>get_statistics\<close> reports the
  number of active rows (the length of the active listing), the number of click rows (the
  length of the unfiltered click query), and their quotient, which is 0 when there is no
  active row.
\<close>

theorem aggregate_stats:
  "\<exists>st. get_statistics db Sqlite_ok = Some st \<and>
        total_urls st = length (get_all_urls db Sqlite_ok False) \<and>
        total_urls st = length (filter is_active (urls db)) \<and>
        total_clicks st = length (get_clicks db Sqlite_ok None) \<and>
        total_clicks st = length (clicks db) \<and>
        avg_clicks_per_url st =
          (if total_urls st = 0 then 0 else real (total_clicks st) / real (total_urls st))"
proof -
  define st where "st = the (get_statistics db Sqlite_ok)"
  have s: "get_statistics db Sqlite_ok = Some st"
    by (simp add: st_def get_statistics_def Let_def)
  have n: "total_urls st = length (filter is_active (urls db))"
    by (simp add: st_def get_statistics_def Let_def)
  have m: "total_clicks st = length (clicks db)"
    by (simp add: st_def get_statistics_def Let_def)
  have l: "length (get_all_urls db Sqlite_ok False) = length (filter is_active (urls db))"
    by (simp add: get_all_urls_def)
  have q: "length (get_clicks db Sqlite_ok None) = length (clicks db)"
    by (simp add: get_clicks_def)
  have a: "avg_clicks_per_url st =
          (if total_urls st = 0 then 0 else real (total_clicks st) / real (total_urls st))"
    unfolding n m by (simp add: st_def get_statistics_def Let_def)
  from s n m l q a show ?thesis by auto
qed

text \<open>
  C10 (result of the delete operations).  The boolean returned by \<open>delete_url\<close> and by
  \<open>hard_delete_url\<close> is true exactly when no statement raised, for every database and
  every code.  For a code that no row has, both still return true while the urls table
  stays as it was.
\<close>

theorem delete_result_is_storage_outcome:
  "fst (delete_url db out c) = (out = Sqlite_ok) \<and>
   fst (hard_delete_url db out1 out2 c) = (out1 = Sqlite_ok \<and> out2 = Sqlite_ok) \<and>
   (\<not> code_exists db c \<longrightarrow>
      delete_url db Sqlite_ok c = (True, db) \<and>
      fst (hard_delete_url db Sqlite_ok Sqlite_ok c) = True \<and>
      urls (snd (hard_delete_url db Sqlite_ok Sqlite_ok c)) = urls db)"
proof -
  have a: "fst (delete_url db out c) = (out = Sqlite_ok)"
    by (cases out) (simp_all add: delete_url_def)
  have b: "fst (hard_delete_url db out1 out2 c) = (out1 = Sqlite_ok \<and> out2 = Sqlite_ok)"
    by (cases out1; cases out2) (simp_all add: hard_delete_url_def Let_def)
  have d: "delete_url db Sqlite_ok c = (True, db) \<and>
      fst (hard_delete_url db Sqlite_ok Sqlite_ok c) = True \<and>
      urls (snd (hard_delete_url db Sqlite_ok Sqlite_ok c)) = urls db" if "\<not> code_exists db c"
  proof -
    have no: "\<forall>r \<in> set (urls db). short_code r \<noteq> c" using that by (simp add: code_exists_def)
    have "map (\<lambda>r. if short_code r = c then r\<lparr>is_active := False\<rparr> else r) (urls db) = urls db"
      by (rule map_id_absent [OF no])
    then have x: "delete_url db Sqlite_ok c = (True, db)" by (simp add: delete_url_def)
    have "filter (\<lambda>r. short_code r \<noteq> c) (urls db) = urls db"
      using no by (simp add: filter_id_conv)
    then have y: "urls (snd (hard_delete_url db Sqlite_ok Sqlite_ok c)) = urls db"
      by (simp add: hard_delete_url_def Let_def)
    have z: "fst (hard_delete_url db Sqlite_ok Sqlite_ok c) = True"
      by (simp add: hard_delete_url_def Let_def)
    from x y z show ?thesis by simp
  qed
  from a b d show ?thesis by blast
qed

theorem delete_result_is_storage_outcome_witness:
  "\<not> code_exists abc_db (str ''nope'') \<and>
   delete_url abc_db Sqlite_ok (str ''nope'') = (True, abc_db) \<and>
   hard_delete_url abc_db Sqlite_ok Sqlite_ok (str ''nope'') = (True, abc_db) \<and>
   fst (delete_url abc_db Sqlite_error (str ''abc'')) = False"
proof -
  have h: "\<not> code_exists abc_db (str ''nope'')" by (simp add: code_exists_def abc_db_def plain_row_def str_def)
  have k: "hard_delete_url abc_db Sqlite_ok Sqlite_ok (str ''nope'') = (True, abc_db)"
    by (simp add: hard_delete_url_def abc_db_def abc_click_def plain_row_def str_def Let_def)
  show ?thesis
    using h k delete_result_is_storage_outcome [of abc_db Sqlite_ok "str ''nope''" Sqlite_ok Sqlite_ok]
      delete_result_is_storage_outcome [of abc_db Sqlite_error "str ''abc''" Sqlite_ok Sqlite_ok]
    by simp
qed

end
